theory Spec2Isabelle
  imports Complex_Main
begin

section \<open>ConstructoraCALI: the project model and the currency formatter\<close>

text \<open>
  A shallow embedding of \<^verbatim>\<open>src/Constructora.py\<close>: the class \<^verbatim>\<open>Proyecto\<close> with its
  constructor and its method \<^verbatim>\<open>_recalcular\<close>, and the function \<^verbatim>\<open>formatear_valor\<close>.

  Numbers. A Python \<^verbatim>\<open>float\<close> is modelled as a \<^typ>\<open>real\<close> and its arithmetic as exact
  arithmetic: the rounding of IEEE doubles, their infinities and NaN are outside the model.
  A Python \<^verbatim>\<open>int\<close> is an \<^typ>\<open>int\<close>; \<^verbatim>\<open>math.floor\<close> and \<^verbatim>\<open>math.ceil\<close>, which return an
  \<^verbatim>\<open>int\<close>, are \<^term>\<open>floor\<close> and \<^term>\<open>ceiling\<close>.

  Strings. \<^verbatim>\<open>tipo\<close> and \<^verbatim>\<open>tamano\<close> stay strings, compared with the literals the source
  compares them with, so that the final \<^verbatim>\<open>else\<close> of each chain takes every other string,
  as it does in the source.
\<close>

subsection \<open>Global tables\<close>

text \<open>The euro sign of the source, as its three UTF-8 bytes.\<close>

definition simbolo_euro :: string where
  "simbolo_euro = [CHR 0xE2, CHR 0x82, CHR 0xAC]"

definition TASA_DE_CONVERSION :: "string \<rightharpoonup> real" where
  "TASA_DE_CONVERSION =
     [''COP'' \<mapsto> 1.0,
      ''USD'' \<mapsto> 1 / 4000.0,
      ''EUR'' \<mapsto> 1 / 4300.0]"

definition SIMBOLO_MONEDA :: "string \<rightharpoonup> string" where
  "SIMBOLO_MONEDA =
     [''COP'' \<mapsto> ''$'',
      ''USD'' \<mapsto> ''$'',
      ''EUR'' \<mapsto> simbolo_euro]"

text \<open>\<^verbatim>\<open>d.get(k, default)\<close>.\<close>

definition dict_get :: "('k \<rightharpoonup> 'v) \<Rightarrow> 'k \<Rightarrow> 'v \<Rightarrow> 'v" where
  "dict_get d k dflt = (case d k of None \<Rightarrow> dflt | Some v \<Rightarrow> v)"

subsection \<open>The format specification \<^verbatim>\<open>,.2f\<close>\<close>

definition digito :: "int \<Rightarrow> char" where
  "digito d = char_of (48 + d)"

text \<open>The decimal digits of an integer that is not negative, most significant first.\<close>

function digitos :: "int \<Rightarrow> string" where
  "digitos n = (if n < 10 then [digito n] else digitos (n div 10) @ [digito (n mod 10)])"
  by pat_completeness auto
termination
  by (relation "measure nat") auto

declare digitos.simps [simp del]

text \<open>The thousands separator: a comma before every group of three digits, from the right.\<close>

fun agrupar :: "string \<Rightarrow> string" where
  "agrupar ds =
     (if length ds \<le> 3 then ds
      else agrupar (take (length ds - 3) ds) @ '','' @ drop (length ds - 3) ds)"

declare agrupar.simps [simp del]

text \<open>Rounding to the nearest integer, a tie going to the even neighbour.\<close>

definition redondeo_par :: "real \<Rightarrow> int" where
  "redondeo_par x =
     (let n = \<lfloor>x\<rfloor>; r = x - of_int n
      in if r < 1 / 2 then n
         else if 1 / 2 < r then n + 1
         else if even n then n else n + 1)"

text \<open>
  \<^verbatim>\<open>f"{x:,.2f}"\<close>: the sign, the integer part in groups of three, a point and two decimals
  of the magnitude rounded to hundredths.
\<close>

definition formato_coma_2f :: "real \<Rightarrow> string" where
  "formato_coma_2f x =
     (let c = redondeo_par (\<bar>x\<bar> * 100)
      in (if x < 0 then ''-'' else '''')
         @ agrupar (digitos (c div 100))
         @ ''.'' @ [digito (c mod 100 div 10), digito (c mod 10)])"

subsection \<open>\<^verbatim>\<open>formatear_valor\<close>\<close>

text \<open>
  The source reads the module variable \<^verbatim>\<open>moneda_actual\<close>; here it is the first
  argument.
\<close>

definition formatear_valor :: "string \<Rightarrow> real \<Rightarrow> string" where
  "formatear_valor moneda_actual valor_cop =
     (let factor = dict_get TASA_DE_CONVERSION moneda_actual 1.0;
          convertido = valor_cop * factor;
          simbolo = dict_get SIMBOLO_MONEDA moneda_actual ''$''
      in simbolo @ '' '' @ formato_coma_2f convertido @ '' '' @ moneda_actual)"

subsection \<open>The class \<^verbatim>\<open>Proyecto\<close>\<close>

text \<open>A calendar date: year, month, day.\<close>

type_synonym fecha = "nat \<times> nat \<times> nat"

text \<open>
  The attributes of a \<^verbatim>\<open>Proyecto\<close>, under the names of the source. The first fourteen are
  set by the constructor and by the menus; the others are bound by \<^verbatim>\<open>_recalcular\<close>.
  \<^verbatim>\<open>aptos_por_torre\<close>, \<^verbatim>\<open>num_torres\<close> and \<^verbatim>\<open>area_bodegas\<close> are bound in one branch only:
  \<^term>\<open>None\<close> is the attribute that does not exist. \<^verbatim>\<open>habitaciones\<close> is an integer: the
  menus read it with \<^verbatim>\<open>leer_int\<close> for the two types they offer, and \<^verbatim>\<open>_recalcular\<close> reads
  it in the branches of these two types only.
\<close>

record Proyecto =
  pid :: string
  tipo :: string
  fecha_inicio :: fecha
  direccion :: string
  area_lote :: real
  precio_terreno_m2 :: real
  tamano :: string
  estrato :: int
  habitaciones :: int
  fecha_estimada_final :: fecha
  zonas_sociales :: "string list"
  porc_construccion :: real
  finalizado :: bool
  fecha_real_final :: "fecha option"
  area_construida :: real
  area_no_construida :: real
  area_min_vivienda :: real
  num_viviendas :: int
  aptos_por_torre :: "int option"
  num_torres :: "int option"
  area_bodegas :: "real option"
  costo_terreno_total :: real
  costo_construccion_m2 :: real
  costo_construccion_total :: real
  presupuesto_total :: real
  ganancia :: real
  precio_venta_m2 :: real
  precio_venta_total :: real
  valor_casa :: real

subsection \<open>\<^verbatim>\<open>_recalcular\<close>, branch \<^verbatim>\<open>"casas"\<close>\<close>

text \<open>Lines 105 to 113: the minimum area of a house.\<close>

definition casas_area_min_vivienda :: "Proyecto \<Rightarrow> real" where
  "casas_area_min_vivienda p =
     (if tamano p = ''grande'' then of_int (habitaciones p) * 30.0 + 40.0
      else if tamano p = ''mediana'' then of_int (habitaciones p) * 25.0 + 35.0
      else 60.0)"

text \<open>Lines 116 to 135: the local \<^verbatim>\<open>precio_base_m2\<close> of the branch.\<close>

definition casas_precio_base_m2 :: "Proyecto \<Rightarrow> real" where
  "casas_precio_base_m2 p =
     (let costo_terreno = area_lote p * precio_terreno_m2 p;
          costo_m2 =
            (if estrato p = 3 then (1800000 + 2300000) / 2
             else if estrato p = 4 then (2300000 + 2800000) / 2
             else if estrato p = 5 then (2800000 + 3600000) / 2
             else (3600000 + 4500000) / 2);
          costo_construccion = area_construida p * costo_m2;
          presupuesto_sin_ganancia = costo_terreno + costo_construccion
      in if area_construida p > 0
         then (1.20 * presupuesto_sin_ganancia) / area_construida p
         else 0.0)"

text \<open>
  Lines 103 to 153. \<^verbatim>\<open>self.area_min_vivienda\<close> is assigned first (lines 105 to 113); the
  locals are computed on the object as it is then.
\<close>

definition casas_fijar_area_min :: "Proyecto \<Rightarrow> Proyecto" where
  "casas_fijar_area_min p = p\<lparr>area_min_vivienda := casas_area_min_vivienda p\<rparr>"

definition rama_casas :: "Proyecto \<Rightarrow> Proyecto" where
  "rama_casas p =
     (let p1 = casas_fijar_area_min p;
          precio_base_m2 = casas_precio_base_m2 p1;
          beta_casas = 50000.0;
          n_opt = precio_base_m2 / (2.0 * beta_casas);
          n_opt1 = max 1 \<lfloor>n_opt\<rfloor>;
          capacidad_area = \<lfloor>area_construida p1 / area_min_vivienda p1\<rfloor>;
          n_opt2 = (if n_opt1 > capacidad_area then capacidad_area else n_opt1)
      in p1\<lparr>num_viviendas := n_opt2\<rparr>)"

subsection \<open>\<^verbatim>\<open>_recalcular\<close>, branch \<^verbatim>\<open>"edificio"\<close>\<close>

text \<open>Lines 160 to 176: the local \<^verbatim>\<open>precio_base_m2\<close> of the branch.\<close>

definition edificio_precio_base_m2 :: "Proyecto \<Rightarrow> real" where
  "edificio_precio_base_m2 p =
     (let costo_terreno = area_lote p * precio_terreno_m2 p;
          costo_m2 =
            (if estrato p = 3 then (1800000 + 2300000) / 2
             else if estrato p = 4 then (2300000 + 2800000) / 2
             else if estrato p = 5 then (2800000 + 3600000) / 2
             else (3600000 + 4500000) / 2);
          costo_construccion = area_construida p * costo_m2;
          presupuesto_sin_ganancia = costo_terreno + costo_construccion
      in if area_construida p > 0
         then (1.20 * presupuesto_sin_ganancia) / area_construida p
         else 0.0)"

text \<open>Lines 155 to 197; line 157 assigns \<^verbatim>\<open>self.area_min_vivienda\<close>.\<close>

definition edificio_fijar_area_min :: "Proyecto \<Rightarrow> Proyecto" where
  "edificio_fijar_area_min p = p\<lparr>area_min_vivienda := of_int (habitaciones p) * 20.0 + 30.0\<rparr>"

definition rama_edificio :: "Proyecto \<Rightarrow> Proyecto" where
  "rama_edificio p =
     (let p1 = edificio_fijar_area_min p;
          precio_base_m2 = edificio_precio_base_m2 p1;
          beta_edificio = 80000.0;
          n_opt = precio_base_m2 / (2.0 * beta_edificio);
          n_opt1 = max 1 \<lfloor>n_opt\<rfloor>;
          capacidad_area = \<lfloor>area_construida p1 / area_min_vivienda p1\<rfloor>;
          n_opt2 = (if n_opt1 > capacidad_area then capacidad_area else n_opt1);
          p2 = p1\<lparr>num_viviendas := n_opt2\<rparr>;
          aptos = (10::int);
          torres = \<lceil>of_int (num_viviendas p2) / (of_int aptos :: real)\<rceil>
      in p2\<lparr>aptos_por_torre := Some (min aptos (num_viviendas p2)),
             num_torres := Some torres\<rparr>)"

subsection \<open>\<^verbatim>\<open>_recalcular\<close>, the last branch\<close>

text \<open>
  Lines 199 to 203. The product of line 201 and the quotient of line 203 are exact here and
  rounded doubles in the source, and the floor of line 203 can show the difference: a lot of
  11000 m2 is 7700 m2 of warehouses and 77 units in exact arithmetic, 7699.999999999999 m2
  and 76 units in doubles. What is proved of this branch below is therefore what holds
  whatever the rounding: which attributes it writes, that it reads no attribute it writes,
  and the values of \<^verbatim>\<open>proyecto_bodegas\<close>, whose lot of 1000 m2 gives 700 m2 and 7 units in
  doubles as well.
\<close>

definition rama_otro :: "Proyecto \<Rightarrow> Proyecto" where
  "rama_otro p =
     (let bodegas = area_lote p * 0.70;
          p1 = p\<lparr>area_bodegas := Some bodegas\<rparr>;
          p2 = p1\<lparr>area_min_vivienda := 100.0\<rparr>
      in p2\<lparr>num_viviendas := max 1 \<lfloor>bodegas / area_min_vivienda p2\<rfloor>\<rparr>)"

subsection \<open>\<^verbatim>\<open>_recalcular\<close>\<close>

text \<open>Lines 98 to 100.\<close>

definition recalcular_areas :: "Proyecto \<Rightarrow> Proyecto" where
  "recalcular_areas p =
     (let p1 = p\<lparr>area_construida := area_lote p * (porc_construccion p / 100.0)\<rparr>
      in p1\<lparr>area_no_construida := area_lote p1 - area_construida p1\<rparr>)"

text \<open>Lines 103 to 203.\<close>

definition recalcular_unidades :: "Proyecto \<Rightarrow> Proyecto" where
  "recalcular_unidades p =
     (if tipo p = ''casas'' then rama_casas p
      else if tipo p = ''edificio'' then rama_edificio p
      else rama_otro p)"

text \<open>Lines 205 to 240.\<close>

definition recalcular_costos :: "Proyecto \<Rightarrow> Proyecto" where
  "recalcular_costos p =
     (let p3 = p\<lparr>costo_terreno_total := area_lote p * precio_terreno_m2 p\<rparr>;
          p4 = p3\<lparr>costo_construccion_m2 :=
                 (if estrato p3 = 3 then (1800000 + 2300000) / 2
                  else if estrato p3 = 4 then (2300000 + 2800000) / 2
                  else if estrato p3 = 5 then (2800000 + 3600000) / 2
                  else (3600000 + 4500000) / 2)\<rparr>;
          p5 = p4\<lparr>costo_construccion_total := area_construida p4 * costo_construccion_m2 p4\<rparr>;
          p6 = p5\<lparr>presupuesto_total := costo_terreno_total p5 + costo_construccion_total p5\<rparr>;
          p7 = p6\<lparr>ganancia := presupuesto_total p6 * 0.20\<rparr>;
          p8 = p7\<lparr>precio_venta_m2 :=
                 (if area_construida p7 > 0
                  then (1.20 * presupuesto_total p7) / area_construida p7
                  else 0.0)\<rparr>;
          p9 = p8\<lparr>precio_venta_total := area_construida p8 * precio_venta_m2 p8\<rparr>
      in p9\<lparr>valor_casa :=
               (if num_viviendas p9 > 0
                then precio_venta_total p9 / of_int (num_viviendas p9)
                else 0.0)\<rparr>)"

text \<open>The method: its three parts in the order of the source.\<close>

definition recalcular :: "Proyecto \<Rightarrow> Proyecto" where
  "recalcular p = recalcular_costos (recalcular_unidades (recalcular_areas p))"

subsection \<open>The constructor\<close>

text \<open>
  \<^verbatim>\<open>Proyecto.__init__\<close>. The attributes that \<^verbatim>\<open>_recalcular\<close> binds do not exist before
  its call; the record needs a value there, and \<^verbatim>\<open>_recalcular\<close> writes every one of them
  before it reads it.
\<close>

definition Proyecto_init ::
  "string \<Rightarrow> string \<Rightarrow> fecha \<Rightarrow> string \<Rightarrow> real \<Rightarrow> real \<Rightarrow> string \<Rightarrow> int \<Rightarrow> int \<Rightarrow> fecha
     \<Rightarrow> Proyecto" where
  "Proyecto_init pid' tipo' fecha_inicio' direccion' area_lote' precio_terreno_m2' tamano'
       estrato' habitaciones' fecha_estimada_final' =
     recalcular
       \<lparr>pid = pid',
        tipo = tipo',
        fecha_inicio = fecha_inicio',
        direccion = direccion',
        area_lote = area_lote',
        precio_terreno_m2 = precio_terreno_m2',
        tamano = tamano',
        estrato = estrato',
        habitaciones = habitaciones',
        fecha_estimada_final = fecha_estimada_final',
        zonas_sociales =
          (if estrato' \<ge> 5 then [''Piscina'', ''Sauna'', ''Gimnasio'']
           else if estrato' = 4 then [''Piscina'', ''Salon comun'']
           else if estrato' = 3 then [''Parque infantil'', ''Salon comun'']
           else [''Zonas verdes'', ''Parque infantil'']),
        porc_construccion =
          (if tamano' = ''grande'' then 80.0
           else if tamano' = ''mediana'' then 60.0
           else 45.0),
        finalizado = False,
        fecha_real_final = None,
        area_construida = 0,
        area_no_construida = 0,
        area_min_vivienda = 0,
        num_viviendas = 0,
        aptos_por_torre = None,
        num_torres = None,
        area_bodegas = None,
        costo_terreno_total = 0,
        costo_construccion_m2 = 0,
        costo_construccion_total = 0,
        presupuesto_total = 0,
        ganancia = 0,
        precio_venta_m2 = 0,
        precio_venta_total = 0,
        valor_casa = 0\<rparr>"

subsection \<open>Projects used as examples\<close>

text \<open>
  Scenario A of the specification: a lot of 1000 m2 at 500000 per m2, large houses of three
  rooms, stratum 4.
\<close>

definition proyecto_A :: Proyecto where
  "proyecto_A =
     Proyecto_init ''A'' ''casas'' (2025, 1, 15) ''Calle 5 # 10-20'' 1000 500000 ''grande'' 4 3
       (2026, 1, 15)"

text \<open>Scenario B: the same lot as a building of apartments of two rooms.\<close>

definition proyecto_B :: Proyecto where
  "proyecto_B =
     Proyecto_init ''B'' ''edificio'' (2025, 1, 15) ''Calle 5 # 10-20'' 1000 500000 ''grande'' 4 2
       (2026, 1, 15)"

text \<open>
  Scenario D: small houses on a lot of 100 m2. The built area is 45 m2, below the 60 m2 that
  one small house needs.
\<close>

definition proyecto_D :: Proyecto where
  "proyecto_D =
     Proyecto_init ''D'' ''casas'' (2025, 1, 15) ''Calle 5 # 10-20'' 100 500000 ''chica'' 4 3
       (2026, 1, 15)"

text \<open>
  A project of the third type on a lot of 1000 m2 with the small construction percentage:
  450 m2 are built, 700 m2 are counted as warehouses.
\<close>

definition proyecto_bodegas :: Proyecto where
  "proyecto_bodegas =
     Proyecto_init ''C'' ''otro'' (2025, 1, 15) ''Calle 5 # 10-20'' 1000 500000 ''chica'' 4 1
       (2026, 1, 15)"

section \<open>What each part of \<^verbatim>\<open>_recalcular\<close> writes\<close>

lemma tope_min: "(if (b::int) < a then b else a) = min a b"
  by (simp add: min_def)

lemma areas_fields:
  "area_construida (recalcular_areas p) = area_lote p * (porc_construccion p / 100)"
  "area_no_construida (recalcular_areas p) = area_lote p - area_construida (recalcular_areas p)"
  "tipo (recalcular_areas p) = tipo p"
  "tamano (recalcular_areas p) = tamano p"
  "habitaciones (recalcular_areas p) = habitaciones p"
  "area_lote (recalcular_areas p) = area_lote p"
  by (simp_all add: recalcular_areas_def Let_def)

lemma casas_fields:
  "area_construida (rama_casas q) = area_construida q"
  "area_min_vivienda (rama_casas q) = casas_area_min_vivienda q"
  "num_viviendas (rama_casas q) =
     min (max 1 \<lfloor>casas_precio_base_m2 (casas_fijar_area_min q) / (2 * 50000)\<rfloor>)
         \<lfloor>area_construida q / casas_area_min_vivienda q\<rfloor>"
  by (simp_all add: rama_casas_def casas_fijar_area_min_def Let_def tope_min)

lemma edificio_fields:
  "area_construida (rama_edificio q) = area_construida q"
  "area_min_vivienda (rama_edificio q) = of_int (habitaciones q) * 20 + 30"
  "num_viviendas (rama_edificio q) =
     min (max 1 \<lfloor>edificio_precio_base_m2 (edificio_fijar_area_min q) / (2 * 80000)\<rfloor>)
         \<lfloor>area_construida q / (of_int (habitaciones q) * 20 + 30)\<rfloor>"
  by (simp_all add: rama_edificio_def edificio_fijar_area_min_def Let_def tope_min)

lemma otro_fields:
  "area_construida (rama_otro q) = area_construida q"
  "area_min_vivienda (rama_otro q) = 100"
  "num_viviendas (rama_otro q) = max 1 \<lfloor>area_lote q * 0.70 / 100\<rfloor>"
  by (simp_all add: rama_otro_def Let_def)

lemma unidades_frame:
  "area_construida (recalcular_unidades q) = area_construida q"
  "area_lote (recalcular_unidades q) = area_lote q"
  "precio_terreno_m2 (recalcular_unidades q) = precio_terreno_m2 q"
  "estrato (recalcular_unidades q) = estrato q"
  by (simp_all add: recalcular_unidades_def rama_casas_def rama_edificio_def rama_otro_def
      casas_fijar_area_min_def edificio_fijar_area_min_def Let_def)

lemma costos_frame:
  "area_construida (recalcular_costos q) = area_construida q"
  "area_min_vivienda (recalcular_costos q) = area_min_vivienda q"
  "num_viviendas (recalcular_costos q) = num_viviendas q"
  by (simp_all add: recalcular_costos_def Let_def)

lemma costos_fields:
  "costo_terreno_total (recalcular_costos q) = area_lote q * precio_terreno_m2 q"
  "costo_construccion_m2 (recalcular_costos q) =
     (if estrato q = 3 then 2050000 else if estrato q = 4 then 2550000
      else if estrato q = 5 then 3200000 else 4050000)"
  "costo_construccion_total (recalcular_costos q) =
     area_construida q * costo_construccion_m2 (recalcular_costos q)"
  "presupuesto_total (recalcular_costos q) =
     costo_terreno_total (recalcular_costos q) + costo_construccion_total (recalcular_costos q)"
  "ganancia (recalcular_costos q) = presupuesto_total (recalcular_costos q) * 0.20"
  "precio_venta_m2 (recalcular_costos q) =
     (if area_construida q > 0
      then (1.20 * presupuesto_total (recalcular_costos q)) / area_construida q else 0)"
  by (simp_all add: recalcular_costos_def Let_def)

lemma casas_area_min_areas:
  "casas_area_min_vivienda (recalcular_areas p) = casas_area_min_vivienda p"
  by (simp add: casas_area_min_vivienda_def areas_fields)

text \<open>The attributes that each part leaves as they are, and those it writes.\<close>

lemma areas_raw:
  "pid (recalcular_areas q) = pid q"
  "tipo (recalcular_areas q) = tipo q"
  "fecha_inicio (recalcular_areas q) = fecha_inicio q"
  "direccion (recalcular_areas q) = direccion q"
  "area_lote (recalcular_areas q) = area_lote q"
  "precio_terreno_m2 (recalcular_areas q) = precio_terreno_m2 q"
  "tamano (recalcular_areas q) = tamano q"
  "estrato (recalcular_areas q) = estrato q"
  "habitaciones (recalcular_areas q) = habitaciones q"
  "fecha_estimada_final (recalcular_areas q) = fecha_estimada_final q"
  "zonas_sociales (recalcular_areas q) = zonas_sociales q"
  "porc_construccion (recalcular_areas q) = porc_construccion q"
  "finalizado (recalcular_areas q) = finalizado q"
  "fecha_real_final (recalcular_areas q) = fecha_real_final q"
  by (simp_all add: recalcular_areas_def Let_def)

lemma areas_resto:
  "area_min_vivienda (recalcular_areas q) = area_min_vivienda q"
  "num_viviendas (recalcular_areas q) = num_viviendas q"
  "aptos_por_torre (recalcular_areas q) = aptos_por_torre q"
  "num_torres (recalcular_areas q) = num_torres q"
  "area_bodegas (recalcular_areas q) = area_bodegas q"
  "costo_terreno_total (recalcular_areas q) = costo_terreno_total q"
  "costo_construccion_m2 (recalcular_areas q) = costo_construccion_m2 q"
  "costo_construccion_total (recalcular_areas q) = costo_construccion_total q"
  "presupuesto_total (recalcular_areas q) = presupuesto_total q"
  "ganancia (recalcular_areas q) = ganancia q"
  "precio_venta_m2 (recalcular_areas q) = precio_venta_m2 q"
  "precio_venta_total (recalcular_areas q) = precio_venta_total q"
  "valor_casa (recalcular_areas q) = valor_casa q"
  by (simp_all add: recalcular_areas_def Let_def)

lemma unidades_raw:
  "pid (recalcular_unidades q) = pid q"
  "tipo (recalcular_unidades q) = tipo q"
  "fecha_inicio (recalcular_unidades q) = fecha_inicio q"
  "direccion (recalcular_unidades q) = direccion q"
  "area_lote (recalcular_unidades q) = area_lote q"
  "precio_terreno_m2 (recalcular_unidades q) = precio_terreno_m2 q"
  "tamano (recalcular_unidades q) = tamano q"
  "estrato (recalcular_unidades q) = estrato q"
  "habitaciones (recalcular_unidades q) = habitaciones q"
  "fecha_estimada_final (recalcular_unidades q) = fecha_estimada_final q"
  "zonas_sociales (recalcular_unidades q) = zonas_sociales q"
  "porc_construccion (recalcular_unidades q) = porc_construccion q"
  "finalizado (recalcular_unidades q) = finalizado q"
  "fecha_real_final (recalcular_unidades q) = fecha_real_final q"
  "area_construida (recalcular_unidades q) = area_construida q"
  "area_no_construida (recalcular_unidades q) = area_no_construida q"
  by (simp_all add: recalcular_unidades_def rama_casas_def rama_edificio_def rama_otro_def
      casas_fijar_area_min_def edificio_fijar_area_min_def Let_def)

lemma unidades_resto:
  "costo_terreno_total (recalcular_unidades q) = costo_terreno_total q"
  "costo_construccion_m2 (recalcular_unidades q) = costo_construccion_m2 q"
  "costo_construccion_total (recalcular_unidades q) = costo_construccion_total q"
  "presupuesto_total (recalcular_unidades q) = presupuesto_total q"
  "ganancia (recalcular_unidades q) = ganancia q"
  "precio_venta_m2 (recalcular_unidades q) = precio_venta_m2 q"
  "precio_venta_total (recalcular_unidades q) = precio_venta_total q"
  "valor_casa (recalcular_unidades q) = valor_casa q"
  by (simp_all add: recalcular_unidades_def rama_casas_def rama_edificio_def rama_otro_def
      casas_fijar_area_min_def edificio_fijar_area_min_def Let_def)

lemma unidades_fields:
  "area_min_vivienda (recalcular_unidades q) =
     (if tipo q = ''casas'' then casas_area_min_vivienda q
      else if tipo q = ''edificio'' then of_int (habitaciones q) * 20 + 30
      else 100)"
  "num_viviendas (recalcular_unidades q) =
     (if tipo q = ''casas''
      then min (max 1 \<lfloor>casas_precio_base_m2 (casas_fijar_area_min q) / (2 * 50000)\<rfloor>)
               \<lfloor>area_construida q / casas_area_min_vivienda q\<rfloor>
      else if tipo q = ''edificio''
      then min (max 1 \<lfloor>edificio_precio_base_m2 (edificio_fijar_area_min q) / (2 * 80000)\<rfloor>)
               \<lfloor>area_construida q / (of_int (habitaciones q) * 20 + 30)\<rfloor>
      else max 1 \<lfloor>area_lote q * 0.70 / 100\<rfloor>)"
  "aptos_por_torre (recalcular_unidades q) =
     (if tipo q = ''casas'' then aptos_por_torre q
      else if tipo q = ''edificio'' then Some (min 10 (num_viviendas (rama_edificio q)))
      else aptos_por_torre q)"
  "num_torres (recalcular_unidades q) =
     (if tipo q = ''casas'' then num_torres q
      else if tipo q = ''edificio'' then Some \<lceil>of_int (num_viviendas (rama_edificio q)) / (10::real)\<rceil>
      else num_torres q)"
  "area_bodegas (recalcular_unidades q) =
     (if tipo q = ''casas'' then area_bodegas q
      else if tipo q = ''edificio'' then area_bodegas q
      else Some (area_lote q * 0.70))"
  by (simp_all add: recalcular_unidades_def casas_fields edificio_fields otro_fields)
     (simp_all add: rama_casas_def rama_edificio_def rama_otro_def
      casas_fijar_area_min_def edificio_fijar_area_min_def Let_def tope_min)

lemma unidades_torres:
  "aptos_por_torre (recalcular_unidades q) =
     (if tipo q = ''casas'' then aptos_por_torre q
      else if tipo q = ''edificio'' then Some (min 10 (num_viviendas (recalcular_unidades q)))
      else aptos_por_torre q)"
  "num_torres (recalcular_unidades q) =
     (if tipo q = ''casas'' then num_torres q
      else if tipo q = ''edificio''
      then Some \<lceil>of_int (num_viviendas (recalcular_unidades q)) / (10::real)\<rceil>
      else num_torres q)"
  by (simp_all add: recalcular_unidades_def rama_casas_def rama_edificio_def rama_otro_def
      casas_fijar_area_min_def edificio_fijar_area_min_def Let_def)

lemma costos_raw:
  "pid (recalcular_costos q) = pid q"
  "tipo (recalcular_costos q) = tipo q"
  "fecha_inicio (recalcular_costos q) = fecha_inicio q"
  "direccion (recalcular_costos q) = direccion q"
  "area_lote (recalcular_costos q) = area_lote q"
  "precio_terreno_m2 (recalcular_costos q) = precio_terreno_m2 q"
  "tamano (recalcular_costos q) = tamano q"
  "estrato (recalcular_costos q) = estrato q"
  "habitaciones (recalcular_costos q) = habitaciones q"
  "fecha_estimada_final (recalcular_costos q) = fecha_estimada_final q"
  "zonas_sociales (recalcular_costos q) = zonas_sociales q"
  "porc_construccion (recalcular_costos q) = porc_construccion q"
  "finalizado (recalcular_costos q) = finalizado q"
  "fecha_real_final (recalcular_costos q) = fecha_real_final q"
  "area_construida (recalcular_costos q) = area_construida q"
  "area_no_construida (recalcular_costos q) = area_no_construida q"
  "area_min_vivienda (recalcular_costos q) = area_min_vivienda q"
  "num_viviendas (recalcular_costos q) = num_viviendas q"
  "aptos_por_torre (recalcular_costos q) = aptos_por_torre q"
  "num_torres (recalcular_costos q) = num_torres q"
  "area_bodegas (recalcular_costos q) = area_bodegas q"
  by (simp_all add: recalcular_costos_def Let_def)

lemma costos_fields2:
  "precio_venta_total (recalcular_costos q) = area_construida q * precio_venta_m2 (recalcular_costos q)"
  "valor_casa (recalcular_costos q) =
     (if num_viviendas q > 0
      then precio_venta_total (recalcular_costos q) / of_int (num_viviendas q)
      else 0)"
  by (simp_all add: recalcular_costos_def Let_def)

lemmas recalcular_raw = areas_raw unidades_raw costos_raw

section \<open>The derived attributes after \<^verbatim>\<open>_recalcular\<close>\<close>

lemma area_construida_recalcular:
  "area_construida (recalcular p) = area_lote p * (porc_construccion p / 100)"
  by (simp add: recalcular_def recalcular_unidades_def costos_frame casas_fields edificio_fields
      otro_fields areas_fields)

lemma area_min_vivienda_recalcular:
  "area_min_vivienda (recalcular p) =
     (if tipo p = ''casas'' then casas_area_min_vivienda p
      else if tipo p = ''edificio'' then of_int (habitaciones p) * 20 + 30
      else 100)"
  by (simp add: recalcular_def recalcular_unidades_def costos_frame casas_fields edificio_fields
      otro_fields areas_fields casas_area_min_areas)

text \<open>
  The number of units of a project of houses: the optimum of the revenue model, at least 1,
  then capped by the capacity of the built area.
\<close>

lemma num_viviendas_casas:
  "tipo p = ''casas'' \<Longrightarrow>
   num_viviendas (recalcular p) =
     min (max 1 \<lfloor>casas_precio_base_m2 (casas_fijar_area_min (recalcular_areas p)) / (2 * 50000)\<rfloor>)
         \<lfloor>area_construida (recalcular p) / area_min_vivienda (recalcular p)\<rfloor>"
  by (simp add: area_construida_recalcular area_min_vivienda_recalcular)
     (simp add: recalcular_def recalcular_unidades_def costos_frame casas_fields areas_fields
        casas_area_min_areas)

lemma num_viviendas_edificio:
  "tipo p = ''edificio'' \<Longrightarrow>
   num_viviendas (recalcular p) =
     min (max 1 \<lfloor>edificio_precio_base_m2 (edificio_fijar_area_min (recalcular_areas p)) / (2 * 80000)\<rfloor>)
         \<lfloor>area_construida (recalcular p) / area_min_vivienda (recalcular p)\<rfloor>"
  by (simp add: area_construida_recalcular area_min_vivienda_recalcular)
     (simp add: recalcular_def recalcular_unidades_def costos_frame edificio_fields areas_fields)

lemma valor_casa_recalcular:
  "valor_casa (recalcular p) =
     (if num_viviendas (recalcular p) > 0
      then precio_venta_total (recalcular p) / of_int (num_viviendas (recalcular p))
      else 0)"
  by (simp add: recalcular_def recalcular_costos_def Let_def)

text \<open>
  The divisor \<^verbatim>\<open>self.area_min_vivienda\<close> of lines 149 and 187 is never zero, whatever the
  integer \<^verbatim>\<open>habitaciones\<close>: the division cannot raise. With one room or more it is
  positive.
\<close>

lemma area_min_vivienda_nonzero: "area_min_vivienda (recalcular p) \<noteq> 0"
proof -
  have a: "real_of_int h * 30 + 40 \<noteq> 0" for h
  proof
    assume "real_of_int h * 30 + 40 = 0"
    then have "real_of_int (h * 30 + 40) = 0" by simp
    then have "h * 30 + 40 = 0" by (simp only: of_int_eq_0_iff)
    then show False by presburger
  qed
  have b: "real_of_int h * 25 + 35 \<noteq> 0" for h
  proof
    assume "real_of_int h * 25 + 35 = 0"
    then have "real_of_int (h * 25 + 35) = 0" by simp
    then have "h * 25 + 35 = 0" by (simp only: of_int_eq_0_iff)
    then show False by presburger
  qed
  have c: "real_of_int h * 20 + 30 \<noteq> 0" for h
  proof
    assume "real_of_int h * 20 + 30 = 0"
    then have "real_of_int (h * 20 + 30) = 0" by simp
    then have "h * 20 + 30 = 0" by (simp only: of_int_eq_0_iff)
    then show False by presburger
  qed
  show ?thesis
    using a b c by (simp add: area_min_vivienda_recalcular casas_area_min_vivienda_def)
qed

lemma area_min_vivienda_pos:
  "1 \<le> habitaciones p \<Longrightarrow> 0 < area_min_vivienda (recalcular p)"
  by (simp add: area_min_vivienda_recalcular casas_area_min_vivienda_def add_pos_nonneg)

text \<open>The two local prices and the price of the financial part are one expression.\<close>

lemma casas_precio_base_m2_eq:
  "casas_precio_base_m2 (casas_fijar_area_min q) =
     (if area_construida q > 0
      then (1.20 * presupuesto_total (recalcular_costos q)) / area_construida q else 0)"
  by (simp add: casas_precio_base_m2_def casas_fijar_area_min_def costos_fields Let_def)

lemma edificio_precio_base_m2_eq:
  "edificio_precio_base_m2 (edificio_fijar_area_min q) =
     (if area_construida q > 0
      then (1.20 * presupuesto_total (recalcular_costos q)) / area_construida q else 0)"
  by (simp add: edificio_precio_base_m2_def edificio_fijar_area_min_def costos_fields Let_def)

lemma presupuesto_unidades:
  "presupuesto_total (recalcular_costos (recalcular_unidades q)) =
   presupuesto_total (recalcular_costos q)"
  by (simp add: costos_fields unidades_frame)

text \<open>The constructor sets a positive construction percentage.\<close>

lemma porc_construccion_recalcular: "porc_construccion (recalcular p) = porc_construccion p"
  by (simp add: recalcular_def recalcular_raw)

lemma Proyecto_init_porc_construccion:
  "porc_construccion (Proyecto_init i t fi d a pr tam e h fe) =
     (if tam = ''grande'' then 80 else if tam = ''mediana'' then 60 else 45)"
  unfolding Proyecto_init_def porc_construccion_recalcular by simp

section \<open>Each part depends on its inputs only\<close>

text \<open>
  The part of lines 103 to 203 reads the type, the size, the rooms, the lot area, the land
  price, the stratum and the built area; two objects equal there get the same minimum area
  and the same number of units. The part of lines 98 to 100 changes nothing on an object
  whose two areas are already what it would write, and the part of lines 205 to 240 run twice
  is the part run once.
\<close>

lemma unidades_cong:
  assumes "tipo q = tipo q'" "tamano q = tamano q'" "habitaciones q = habitaciones q'"
    and "area_lote q = area_lote q'" "precio_terreno_m2 q = precio_terreno_m2 q'"
    and "estrato q = estrato q'" "area_construida q = area_construida q'"
  shows "area_min_vivienda (recalcular_unidades q) = area_min_vivienda (recalcular_unidades q')"
    and "num_viviendas (recalcular_unidades q) = num_viviendas (recalcular_unidades q')"
proof -
  have a: "casas_area_min_vivienda q = casas_area_min_vivienda q'"
    by (simp add: casas_area_min_vivienda_def assms)
  have b: "casas_precio_base_m2 (casas_fijar_area_min q)
         = casas_precio_base_m2 (casas_fijar_area_min q')"
    by (simp add: casas_precio_base_m2_eq costos_fields assms)
  have c: "edificio_precio_base_m2 (edificio_fijar_area_min q)
         = edificio_precio_base_m2 (edificio_fijar_area_min q')"
    by (simp add: edificio_precio_base_m2_eq costos_fields assms)
  show "area_min_vivienda (recalcular_unidades q) = area_min_vivienda (recalcular_unidades q')"
    by (simp add: unidades_fields(1) a assms)
  show "num_viviendas (recalcular_unidades q) = num_viviendas (recalcular_unidades q')"
    by (simp add: unidades_fields(2) a b c assms)
qed

lemma recalcular_areas_fix:
  assumes "area_construida r = area_lote r * (porc_construccion r / 100.0)"
    and "area_no_construida r = area_lote r - area_construida r"
  shows "recalcular_areas r = r"
proof -
  have "recalcular_areas r = r\<lparr>area_construida := area_construida r,
      area_no_construida := area_no_construida r\<rparr>"
    unfolding recalcular_areas_def Let_def using assms by simp
  then show ?thesis by simp
qed

lemma recalcular_costos_idem: "recalcular_costos (recalcular_costos q) = recalcular_costos q"
  by (rule Proyecto.equality) (simp_all add: costos_fields costos_fields2 costos_raw)

section \<open>The format of an amount\<close>

lemma redondeo_par_cerca: "\<bar>of_int (redondeo_par y) - y\<bar> \<le> 1 / 2"
  unfolding redondeo_par_def Let_def by (auto simp: abs_le_iff)

lemma redondeo_par_nonneg: "0 \<le> y \<Longrightarrow> 0 \<le> redondeo_par y"
  unfolding redondeo_par_def Let_def by auto

text \<open>The hundredths that \<^term>\<open>formato_coma_2f\<close> prints are within half a hundredth of the amount.\<close>

lemma centavos_cerca: "\<bar>of_int (redondeo_par (\<bar>x\<bar> * 100)) / 100 - \<bar>x\<bar>\<bar> \<le> 1 / 200"
proof -
  have "\<bar>of_int (redondeo_par (\<bar>x\<bar> * 100)) - \<bar>x\<bar> * 100\<bar> \<le> 1 / 2"
    by (rule redondeo_par_cerca)
  then show ?thesis by (simp add: abs_le_iff field_simps)
qed

lemma formato_coma_2f_dos_decimales:
  "\<exists>s a b. 0 \<le> a \<and> a < 10 \<and> 0 \<le> b \<and> b < 10
     \<and> formato_coma_2f x = s @ ''.'' @ [digito a, digito b]"
proof -
  let ?c = "redondeo_par (\<bar>x\<bar> * 100)"
  have "formato_coma_2f x =
          ((if x < 0 then ''-'' else '''') @ agrupar (digitos (?c div 100)))
          @ ''.'' @ [digito (?c mod 100 div 10), digito (?c mod 10)]"
    by (simp add: formato_coma_2f_def Let_def)
  moreover have "0 \<le> ?c mod 100 div 10" "?c mod 100 div 10 < 10" "0 \<le> ?c mod 10" "?c mod 10 < 10"
    by simp_all
  ultimately show ?thesis by blast
qed

section \<open>The number of units\<close>

text \<open>
  Claim C1, as stated: for every project of houses or of a building with a built area above
  zero, the number of units after the recomputation is at least 1.

  It fails on \<^term>\<open>proyecto_D\<close>: 45 m2 are built, one small house needs 60 m2, the capacity
  is 0, and the cap of lines 149 to 151 comes after the \<^verbatim>\<open>max(1, ...)\<close> of line 146.
\<close>

theorem unit_count_zero_with_built_area:
  "tipo proyecto_D = ''casas''
   \<and> area_construida proyecto_D = 45 \<and> 0 < area_construida proyecto_D
   \<and> area_min_vivienda proyecto_D = 60
   \<and> num_viviendas proyecto_D = 0 \<and> \<not> 1 \<le> num_viviendas proyecto_D"
  by code_simp

text \<open>
  Claim C1, amended: for every project of houses or of a building with one room or more per
  unit, whose built area is at least the minimum area of one unit, the number of units after
  the recomputation is at least 1.
\<close>

theorem unit_count_at_least_one:
  assumes "tipo p = ''casas'' \<or> tipo p = ''edificio''"
    and "1 \<le> habitaciones p"
    and "area_min_vivienda (recalcular p) \<le> area_construida (recalcular p)"
  shows "1 \<le> num_viviendas (recalcular p)"
proof -
  have m: "0 < area_min_vivienda (recalcular p)"
    using assms(2) by (rule area_min_vivienda_pos)
  with assms(3) have "1 \<le> area_construida (recalcular p) / area_min_vivienda (recalcular p)"
    by (simp add: le_divide_eq)
  then have "1 \<le> \<lfloor>area_construida (recalcular p) / area_min_vivienda (recalcular p)\<rfloor>"
    by simp
  with assms(1) show ?thesis
    by (auto simp: num_viviendas_casas num_viviendas_edificio)
qed

theorem unit_count_at_least_one_witness:
  "(tipo proyecto_B = ''casas'' \<or> tipo proyecto_B = ''edificio'')
   \<and> 1 \<le> habitaciones proyecto_B
   \<and> area_min_vivienda (recalcular proyecto_B) \<le> area_construida (recalcular proyecto_B)
   \<and> 1 \<le> num_viviendas (recalcular proyecto_B)"
proof -
  have h1: "tipo proyecto_B = ''casas'' \<or> tipo proyecto_B = ''edificio''" by code_simp
  have h2: "1 \<le> habitaciones proyecto_B" by code_simp
  have h3: "area_min_vivienda (recalcular proyecto_B) \<le> area_construida (recalcular proyecto_B)"
    by code_simp
  from unit_count_at_least_one [OF h1 h2 h3] h1 h2 h3 show ?thesis by blast
qed

text \<open>
  Claim C2, as stated: for every project of every type, the number of units after the
  recomputation is at most the floor of the built area over the minimum area of a unit.

  It fails on \<^term>\<open>proyecto_bodegas\<close>: the last branch counts warehouses on 70 percent of
  the lot (lines 201 to 203), 7 of them, while the built area of 450 m2 holds 4.
\<close>

theorem bodegas_above_capacity:
  "tipo proyecto_bodegas = ''otro''
   \<and> area_construida proyecto_bodegas = 450 \<and> area_min_vivienda proyecto_bodegas = 100
   \<and> num_viviendas proyecto_bodegas = 7
   \<and> \<lfloor>area_construida proyecto_bodegas / area_min_vivienda proyecto_bodegas\<rfloor> = 4
   \<and> \<not> num_viviendas proyecto_bodegas
        \<le> \<lfloor>area_construida proyecto_bodegas / area_min_vivienda proyecto_bodegas\<rfloor>"
  by code_simp

text \<open>
  Claim C2, amended: for every project of houses or of a building, the number of units after
  the recomputation is at most the floor of the built area over the minimum area of a unit.
  Nothing is stated of the other types, whose units are not counted on the built area.
\<close>

theorem unit_count_capacity_ceiling:
  assumes "tipo p = ''casas'' \<or> tipo p = ''edificio''"
  shows "num_viviendas (recalcular p)
           \<le> \<lfloor>area_construida (recalcular p) / area_min_vivienda (recalcular p)\<rfloor>"
  using assms by (auto simp: num_viviendas_casas num_viviendas_edificio)

theorem unit_count_capacity_ceiling_witness:
  "((tipo proyecto_A = ''casas'' \<or> tipo proyecto_A = ''edificio'')
     \<and> num_viviendas (recalcular proyecto_A)
          \<le> \<lfloor>area_construida (recalcular proyecto_A) / area_min_vivienda (recalcular proyecto_A)\<rfloor>)
   \<and> ((tipo proyecto_B = ''casas'' \<or> tipo proyecto_B = ''edificio'')
     \<and> num_viviendas (recalcular proyecto_B)
          \<le> \<lfloor>area_construida (recalcular proyecto_B) / area_min_vivienda (recalcular proyecto_B)\<rfloor>)"
proof -
  have a: "tipo proyecto_A = ''casas'' \<or> tipo proyecto_A = ''edificio''" by code_simp
  have b: "tipo proyecto_B = ''casas'' \<or> tipo proyecto_B = ''edificio''" by code_simp
  from unit_count_capacity_ceiling [OF a] unit_count_capacity_ceiling [OF b] a b
  show ?thesis by blast
qed

text \<open>
  Claim C3: for every project of houses or of a building, with a positive lot area, a
  positive construction percentage and one room or more per unit (the input domain of the
  specification), after the recomputation: a built area of at least the minimum area of a
  unit gives one unit or more; a built area below it gives no unit and a unit value of 0.
  The minimum area is positive, so the division by it is defined.
\<close>

theorem unit_count_by_capacity:
  assumes "tipo p = ''casas'' \<or> tipo p = ''edificio''"
    and "0 < area_lote p"
    and "0 < porc_construccion p"
    and "1 \<le> habitaciones p"
  shows "(area_min_vivienda (recalcular p) \<le> area_construida (recalcular p) \<longrightarrow>
            1 \<le> num_viviendas (recalcular p))
       \<and> (area_construida (recalcular p) < area_min_vivienda (recalcular p) \<longrightarrow>
            num_viviendas (recalcular p) = 0 \<and> valor_casa (recalcular p) = 0)
       \<and> 0 < area_min_vivienda (recalcular p)"
proof -
  let ?b = "area_construida (recalcular p)" and ?m = "area_min_vivienda (recalcular p)"
  have m: "0 < ?m"
    using assms(4) by (rule area_min_vivienda_pos)
  have b: "0 \<le> ?b"
    using assms(2,3) by (simp add: area_construida_recalcular)
  have up: "1 \<le> num_viviendas (recalcular p)" if "?m \<le> ?b"
  proof -
    from that m have "1 \<le> ?b / ?m" by (simp add: le_divide_eq)
    then have "1 \<le> \<lfloor>?b / ?m\<rfloor>" by simp
    with assms(1) show ?thesis
      by (auto simp: num_viviendas_casas num_viviendas_edificio)
  qed
  have down: "num_viviendas (recalcular p) = 0 \<and> valor_casa (recalcular p) = 0" if "?b < ?m"
  proof -
    from that b m have "\<lfloor>?b / ?m\<rfloor> = 0" by (simp add: floor_eq_iff)
    with assms(1) have "num_viviendas (recalcular p) = 0"
      by (auto simp: num_viviendas_casas num_viviendas_edificio)
    then show ?thesis by (simp add: valor_casa_recalcular)
  qed
  from up down m show ?thesis by blast
qed

theorem unit_count_by_capacity_witness:
  "((tipo proyecto_A = ''casas'' \<or> tipo proyecto_A = ''edificio'')
     \<and> 0 < area_lote proyecto_A \<and> 0 < porc_construccion proyecto_A
     \<and> 1 \<le> habitaciones proyecto_A
     \<and> area_min_vivienda (recalcular proyecto_A) \<le> area_construida (recalcular proyecto_A)
     \<and> 1 \<le> num_viviendas (recalcular proyecto_A))
   \<and> ((tipo proyecto_D = ''casas'' \<or> tipo proyecto_D = ''edificio'')
     \<and> 0 < area_lote proyecto_D \<and> 0 < porc_construccion proyecto_D
     \<and> 1 \<le> habitaciones proyecto_D
     \<and> area_construida (recalcular proyecto_D) < area_min_vivienda (recalcular proyecto_D)
     \<and> num_viviendas (recalcular proyecto_D) = 0 \<and> valor_casa (recalcular proyecto_D) = 0)"
proof -
  have a1: "tipo proyecto_A = ''casas'' \<or> tipo proyecto_A = ''edificio''" by code_simp
  have a2: "0 < area_lote proyecto_A" by code_simp
  have a3: "0 < porc_construccion proyecto_A" by code_simp
  have a4: "1 \<le> habitaciones proyecto_A" by code_simp
  have a5: "area_min_vivienda (recalcular proyecto_A) \<le> area_construida (recalcular proyecto_A)"
    by code_simp
  have d1: "tipo proyecto_D = ''casas'' \<or> tipo proyecto_D = ''edificio''" by code_simp
  have d2: "0 < area_lote proyecto_D" by code_simp
  have d3: "0 < porc_construccion proyecto_D" by code_simp
  have d4: "1 \<le> habitaciones proyecto_D" by code_simp
  have d5: "area_construida (recalcular proyecto_D) < area_min_vivienda (recalcular proyecto_D)"
    by code_simp
  from unit_count_by_capacity [OF a1 a2 a3 a4] unit_count_by_capacity [OF d1 d2 d3 d4]
    a1 a2 a3 a4 a5 d1 d2 d3 d4 d5
  show ?thesis by blast
qed

section \<open>Scenario A\<close>

text \<open>
  Claim C4: a project of large houses of three rooms in stratum 4, on a lot of 1000 m2 at
  500000 per m2, is recomputed to a built area of 800, a minimum area per unit of 130, a
  construction cost of 2550000 per m2 and 2040000000 in total, a land cost of 500000000, a
  budget of 2540000000, a base price of 3810000 per m2 and min(38, 6) = 6 units. The
  identifier, the dates and the address are any.
\<close>

theorem escenario_A:
  "(let p = Proyecto_init i ''casas'' fi d 1000 500000 ''grande'' 4 3 fe;
        precio_base_m2 = casas_precio_base_m2 (casas_fijar_area_min (recalcular_areas p))
    in porc_construccion p = 80
     \<and> area_construida p = 800
     \<and> area_min_vivienda p = 130
     \<and> costo_construccion_m2 p = 2550000
     \<and> costo_construccion_total p = 2040000000
     \<and> costo_terreno_total p = 500000000
     \<and> presupuesto_total p = 2540000000
     \<and> precio_base_m2 = 3810000
     \<and> max 1 \<lfloor>precio_base_m2 / (2.0 * 50000.0)\<rfloor> = 38
     \<and> \<lfloor>area_construida p / area_min_vivienda p\<rfloor> = 6
     \<and> num_viviendas p = min 38 6
     \<and> num_viviendas p = 6)"
  by code_simp

section \<open>The financial part\<close>

text \<open>
  Claim C5: for every project of every type, after the recomputation the budget is the land
  cost plus the construction cost, and the profit is 0.20 times the budget.
\<close>

theorem financial_rollup:
  "presupuesto_total (recalcular p)
     = costo_terreno_total (recalcular p) + costo_construccion_total (recalcular p)
   \<and> ganancia (recalcular p) = 0.20 * presupuesto_total (recalcular p)"
  by (simp add: recalcular_def costos_fields)

section \<open>The areas\<close>

text \<open>
  Claim C6: for every project of every type, after the recomputation the built area is the
  lot area times the construction percentage over 100, the area not built is the lot area
  minus the built area, and the two add up to the lot area. The sum is one of exact
  arithmetic, as all arithmetic of this theory; the specification states it within the
  tolerance of floating point.
\<close>

theorem area_partition:
  "area_construida (recalcular p) + area_no_construida (recalcular p) = area_lote (recalcular p)
   \<and> area_construida (recalcular p) = area_lote p * porc_construccion p / 100
   \<and> area_no_construida (recalcular p) = area_lote p - area_construida (recalcular p)
   \<and> area_lote (recalcular p) = area_lote p"
  by (simp add: recalcular_def recalcular_raw areas_fields)

section \<open>Recomputing twice\<close>

text \<open>
  Claim C7: the recomputation is idempotent. A second run on the object the first one left
  gives the same object: every attribute, derived or not, has the value it had.
\<close>

theorem recalcular_idempotent: "recalcular (recalcular p) = recalcular p"
proof -
  let ?x = "recalcular_areas p" and ?r = "recalcular p"
  have r: "?r = recalcular_costos (recalcular_unidades ?x)"
    by (simp add: recalcular_def)
  have A: "recalcular_areas ?r = ?r"
    by (rule recalcular_areas_fix)
       (simp_all add: recalcular_def costos_raw unidades_raw areas_fields areas_raw)
  have i: "tipo ?r = tipo ?x" "tamano ?r = tamano ?x" "habitaciones ?r = habitaciones ?x"
    "area_lote ?r = area_lote ?x" "precio_terreno_m2 ?r = precio_terreno_m2 ?x"
    "estrato ?r = estrato ?x" "area_construida ?r = area_construida ?x"
    by (simp_all add: recalcular_def costos_raw unidades_raw)
  have m: "area_min_vivienda (recalcular_unidades ?r) = area_min_vivienda ?r"
    using unidades_cong(1) [OF i] by (simp add: r costos_raw)
  have n: "num_viviendas (recalcular_unidades ?r) = num_viviendas ?r"
    using unidades_cong(2) [OF i] by (simp add: r costos_raw)
  have k: "num_viviendas ?r = num_viviendas (recalcular_unidades ?x)"
    "aptos_por_torre ?r = aptos_por_torre (recalcular_unidades ?x)"
    "num_torres ?r = num_torres (recalcular_unidades ?x)"
    "area_bodegas ?r = area_bodegas (recalcular_unidades ?x)"
    by (simp_all add: r costos_raw)
  have t: "aptos_por_torre (recalcular_unidades ?r) = aptos_por_torre ?r
    \<and> num_torres (recalcular_unidades ?r) = num_torres ?r"
  proof (cases "tipo ?x = ''edificio''")
    case True
    then have "aptos_por_torre ?r = Some (min 10 (num_viviendas ?r))"
      and "num_torres ?r = Some \<lceil>of_int (num_viviendas ?r) / (10::real)\<rceil>"
      by (simp_all add: k unidades_torres [of ?x])
    with True show ?thesis
      by (simp add: unidades_torres [of ?r] i(1) n)
  next
    case False
    then show ?thesis
      by (simp add: unidades_torres [of ?r] i(1))
  qed
  have b: "area_bodegas (recalcular_unidades ?r) = area_bodegas ?r"
  proof (cases "tipo ?x = ''casas'' \<or> tipo ?x = ''edificio''")
    case True
    then show ?thesis
      by (auto simp: unidades_fields(5) [of ?r] i(1))
  next
    case False
    then have "area_bodegas ?r = Some (area_lote ?x * 0.70)"
      by (simp add: k unidades_fields(5) [of ?x])
    with False show ?thesis
      by (simp add: unidades_fields(5) [of ?r] i(1) i(4))
  qed
  have U: "recalcular_unidades ?r = ?r"
    by (rule Proyecto.equality) (simp_all add: unidades_raw unidades_resto m n t b)
  have C: "recalcular_costos ?r = ?r"
    unfolding r by (rule recalcular_costos_idem)
  have "recalcular ?r = recalcular_costos (recalcular_unidades (recalcular_areas ?r))"
    by (fact recalcular_def)
  also have "\<dots> = ?r"
    by (simp only: A U C)
  finally show ?thesis .
qed

section \<open>The attributes the recomputation leaves alone\<close>

text \<open>
  Claim C9: the recomputation changes no input attribute and not the state of finalization:
  identifier, type, the two dates, address, lot area, land price, size, stratum, rooms,
  construction percentage, the finalization flag and the real end date are what they were
  (and so are the social zones).
\<close>

theorem recalcular_frame:
  "pid (recalcular p) = pid p
   \<and> tipo (recalcular p) = tipo p
   \<and> fecha_inicio (recalcular p) = fecha_inicio p
   \<and> fecha_estimada_final (recalcular p) = fecha_estimada_final p
   \<and> direccion (recalcular p) = direccion p
   \<and> area_lote (recalcular p) = area_lote p
   \<and> precio_terreno_m2 (recalcular p) = precio_terreno_m2 p
   \<and> tamano (recalcular p) = tamano p
   \<and> estrato (recalcular p) = estrato p
   \<and> habitaciones (recalcular p) = habitaciones p
   \<and> porc_construccion (recalcular p) = porc_construccion p
   \<and> finalizado (recalcular p) = finalizado p
   \<and> fecha_real_final (recalcular p) = fecha_real_final p
   \<and> zonas_sociales (recalcular p) = zonas_sociales p"
  by (simp add: recalcular_def recalcular_raw)

section \<open>The price computed twice\<close>

text \<open>
  Claim C10: for every project of houses or of a building with a built area above zero, the
  local \<^verbatim>\<open>precio_base_m2\<close> of the branch, computed on the object as it is at lines 116 to
  135 (houses) or 160 to 176 (building), is the \<^verbatim>\<open>precio_venta_m2\<close> that lines 205 to 231
  store: 1.20 times the sum of the land cost and of the built area times the cost per m2 of
  the stratum, over the built area.
\<close>

theorem precio_base_is_precio_venta:
  assumes "tipo p = ''casas'' \<or> tipo p = ''edificio''"
    and "0 < area_construida (recalcular p)"
  shows "(tipo p = ''casas'' \<longrightarrow>
            casas_precio_base_m2 (casas_fijar_area_min (recalcular_areas p))
              = precio_venta_m2 (recalcular p))
       \<and> (tipo p = ''edificio'' \<longrightarrow>
            edificio_precio_base_m2 (edificio_fijar_area_min (recalcular_areas p))
              = precio_venta_m2 (recalcular p))
       \<and> precio_venta_m2 (recalcular p) =
            1.20 * (costo_terreno_total (recalcular p)
                    + area_construida (recalcular p) * costo_construccion_m2 (recalcular p))
              / area_construida (recalcular p)"
proof -
  let ?q = "recalcular_areas p"
  have v: "precio_venta_m2 (recalcular p) =
     (if area_construida ?q > 0
      then (1.20 * presupuesto_total (recalcular_costos ?q)) / area_construida ?q else 0)"
    by (simp add: recalcular_def costos_fields(6) unidades_frame presupuesto_unidades)
  have f: "precio_venta_m2 (recalcular p) =
            1.20 * (costo_terreno_total (recalcular p)
                    + area_construida (recalcular p) * costo_construccion_m2 (recalcular p))
              / area_construida (recalcular p)"
    using assms(2) by (simp add: recalcular_def costos_fields costos_frame)
  show ?thesis
    using v f by (simp add: casas_precio_base_m2_eq edificio_precio_base_m2_eq)
qed

theorem precio_base_is_precio_venta_witness:
  "((tipo proyecto_A = ''casas'' \<or> tipo proyecto_A = ''edificio'')
     \<and> 0 < area_construida (recalcular proyecto_A)
     \<and> tipo proyecto_A = ''casas''
     \<and> casas_precio_base_m2 (casas_fijar_area_min (recalcular_areas proyecto_A))
         = precio_venta_m2 (recalcular proyecto_A))
   \<and> ((tipo proyecto_B = ''casas'' \<or> tipo proyecto_B = ''edificio'')
     \<and> 0 < area_construida (recalcular proyecto_B)
     \<and> tipo proyecto_B = ''edificio''
     \<and> edificio_precio_base_m2 (edificio_fijar_area_min (recalcular_areas proyecto_B))
         = precio_venta_m2 (recalcular proyecto_B))"
proof -
  have a1: "tipo proyecto_A = ''casas''" by code_simp
  have a2: "0 < area_construida (recalcular proyecto_A)" by code_simp
  have b1: "tipo proyecto_B = ''edificio''" by code_simp
  have b2: "0 < area_construida (recalcular proyecto_B)" by code_simp
  from a1 have a0: "tipo proyecto_A = ''casas'' \<or> tipo proyecto_A = ''edificio''" by blast
  from b1 have b0: "tipo proyecto_B = ''casas'' \<or> tipo proyecto_B = ''edificio''" by blast
  from precio_base_is_precio_venta [OF a0 a2] precio_base_is_precio_venta [OF b0 b2]
    a0 a1 a2 b0 b1 b2
  show ?thesis by blast
qed

section \<open>The currency formatter\<close>

text \<open>
  Claim C8: \<^verbatim>\<open>formatear_valor\<close> is a function of the amount and of the selected currency
  code. Its result is the symbol of the currency, a space, the amount times the rate of the
  currency in the format \<^verbatim>\<open>,.2f\<close>, which ends in a point and two decimal digits, a space
  and the code. A code that is in neither table has the rate 1.0 and the symbol \<^verbatim>\<open>$\<close>. The
  amount 10000 with the code USD gives \<^verbatim>\<open>$ 2.50 USD\<close>.
\<close>

theorem formatear_valor_spec:
  "formatear_valor ''COP'' v = ''$ '' @ formato_coma_2f (v * 1.0) @ '' COP''
   \<and> formatear_valor ''USD'' v = ''$ '' @ formato_coma_2f (v * (1 / 4000.0)) @ '' USD''
   \<and> formatear_valor ''EUR'' v
       = simbolo_euro @ '' '' @ formato_coma_2f (v * (1 / 4300.0)) @ '' EUR''
   \<and> (c \<notin> {''COP'', ''USD'', ''EUR''} \<longrightarrow>
        formatear_valor c v = ''$ '' @ formato_coma_2f (v * 1.0) @ '' '' @ c)
   \<and> (\<exists>s a b. 0 \<le> a \<and> a < 10 \<and> 0 \<le> b \<and> b < 10
        \<and> formato_coma_2f x = s @ ''.'' @ [digito a, digito b])
   \<and> formatear_valor ''USD'' 10000 = ''$ 2.50 USD''"
proof -
  have e: "formatear_valor ''USD'' 10000 = ''$ 2.50 USD''"
    by code_simp
  show ?thesis
    using e formato_coma_2f_dos_decimales [of x]
    by (simp add: formatear_valor_def dict_get_def TASA_DE_CONVERSION_def SIMBOLO_MONEDA_def)
qed

theorem formatear_valor_spec_witness:
  "''GBP'' \<notin> {''COP'', ''USD'', ''EUR''}
   \<and> formatear_valor ''GBP'' 1234567.5 = ''$ 1,234,567.50 GBP''"
proof -
  have h: "''GBP'' \<notin> {''COP'', ''USD'', ''EUR''}"
    by simp
  have f: "formato_coma_2f (1234567.5 * 1.0) = ''1,234,567.50''"
    by code_simp
  have "''GBP'' \<notin> {''COP'', ''USD'', ''EUR''} \<longrightarrow>
        formatear_valor ''GBP'' 1234567.5
          = ''$ '' @ formato_coma_2f (1234567.5 * 1.0) @ '' '' @ ''GBP''"
    using formatear_valor_spec [of "1234567.5" "''GBP''" 0] by blast
  with h have "formatear_valor ''GBP'' 1234567.5
          = ''$ '' @ formato_coma_2f (1234567.5 * 1.0) @ '' '' @ ''GBP''"
    by blast
  then have "formatear_valor ''GBP'' 1234567.5 = ''$ 1,234,567.50 GBP''"
    by (simp only: f) simp
  with h show ?thesis by blast
qed


end
